theory Spec2Isabelle
  imports Main "HOL-Library.Word"
begin

unbundle bit_operations_syntax

section \<open>JavaScript values\<close>

text \<open>
  The directive stores values of type \<open>any\<close> (\<open>viewModel\<close>, \<open>model\<close>), and
  \<open>looseIdentical\<close> of \<open>shims/util.ts\<close> compares two of them. A value is one of the
  language's primitives or a reference to an object or a function. A number is kept as
  its IEEE 754 binary64 bit pattern: the only facts about numbers the code depends on
  are which patterns are NaN and which are a zero.
\<close>

type_synonym float64 = "64 word"
type_synonym addr = nat

datatype jsval =
    JUndefined
  | JNull
  | JBool bool
  | JNum float64
  | JStr string
  | JBigInt int
  | JSymbol nat
  | JObject addr
  | JFunction addr

datatype error =
    TypeError
  | NgModelGroupException
  | ControlParentException
  | PathResolutionError
  | Thrown nat

text \<open>Exponent bits all set and a non-zero fraction: the pattern is a NaN.\<close>

definition is_nan :: "float64 \<Rightarrow> bool" where
  "is_nan x = (x AND 0x7FF0000000000000 = 0x7FF0000000000000 \<and> x AND 0x000FFFFFFFFFFFFF \<noteq> 0)"

text \<open>Everything but the sign bit clear: the pattern is \<open>+0\<close> or \<open>-0\<close>.\<close>

definition is_zero :: "float64 \<Rightarrow> bool" where
  "is_zero x = (x AND 0x7FFFFFFFFFFFFFFF = 0)"

definition NaN :: float64 where
  "NaN = 0x7FF8000000000000"

definition one_bits :: float64 where
  "one_bits = 0x3FF0000000000000"

text \<open>\<open>x === y\<close> on two numbers: false when either is NaN, true on the two zeros.\<close>

definition number_equal :: "float64 \<Rightarrow> float64 \<Rightarrow> bool" where
  "number_equal x y = (\<not> is_nan x \<and> \<not> is_nan y \<and> (x = y \<or> (is_zero x \<and> is_zero y)))"

text \<open>
  \<open>a === b\<close>: numbers by \<open>number_equal\<close>, the other primitives by value, symbols,
  objects and functions by identity.
\<close>

fun strictEquals :: "jsval \<Rightarrow> jsval \<Rightarrow> bool" where
  "strictEquals (JNum x) (JNum y) = number_equal x y"
| "strictEquals a b = (a = b)"

fun typeof :: "jsval \<Rightarrow> string" where
  "typeof JUndefined = ''undefined''"
| "typeof JNull = ''object''"
| "typeof (JBool b) = ''boolean''"
| "typeof (JNum x) = ''number''"
| "typeof (JStr s) = ''string''"
| "typeof (JBigInt n) = ''bigint''"
| "typeof (JSymbol s) = ''symbol''"
| "typeof (JObject a) = ''object''"
| "typeof (JFunction a) = ''function''"

text \<open>
  The global \<open>isNaN\<close> converts its argument to a number first. The conversion of a
  string (parsing) and of an object or function (\<open>valueOf\<close>, \<open>toString\<close>, which may throw)
  is the parameter \<open>coerce\<close>; a BigInt and a symbol raise a TypeError.
\<close>

fun ToNumber :: "(jsval \<Rightarrow> error + float64) \<Rightarrow> jsval \<Rightarrow> error + float64" where
  "ToNumber coerce JUndefined = Inr NaN"
| "ToNumber coerce JNull = Inr 0"
| "ToNumber coerce (JBool b) = Inr (if b then one_bits else 0)"
| "ToNumber coerce (JNum x) = Inr x"
| "ToNumber coerce (JBigInt n) = Inl TypeError"
| "ToNumber coerce (JSymbol s) = Inl TypeError"
| "ToNumber coerce v = coerce v"

definition isNaN :: "(jsval \<Rightarrow> error + float64) \<Rightarrow> jsval \<Rightarrow> error + bool" where
  "isNaN coerce v = (case ToNumber coerce v of Inl e \<Rightarrow> Inl e | Inr x \<Rightarrow> Inr (is_nan x))"

text \<open>
  \<^verbatim>\<open>
  export function looseIdentical(a: any, b: any): boolean {
    return a === b || (typeof a === 'number' && typeof b === 'number' && isNaN(a) && isNaN(b))
  }
  \<close>
  \<open>||\<close> and \<open>&&\<close> evaluate their right operand only when the left one does not decide.
\<close>

definition looseIdentical :: "(jsval \<Rightarrow> error + float64) \<Rightarrow> jsval \<Rightarrow> jsval \<Rightarrow> error + bool" where
  "looseIdentical coerce a b =
     (if strictEquals a b then Inr True
      else if typeof a = ''number'' then
        (if typeof b = ''number'' then
           (case isNaN coerce a of
              Inl e \<Rightarrow> Inl e
            | Inr na \<Rightarrow> if na then isNaN coerce b else Inr False)
         else Inr False)
      else Inr False)"

text \<open>The claim's wording: the value is a number, and that number is NaN.\<close>

fun is_NaN_number :: "jsval \<Rightarrow> bool" where
  "is_NaN_number (JNum x) = is_nan x"
| "is_NaN_number v = False"

section \<open>The directive, its collaborators and the world around it\<close>

text \<open>
  \<open>FormControlName\<close> (\<open>directives/reactive_directives/form_control_name.ts\<close>) holds a
  reference to its parent container and reads the parent's getters whenever it needs them.
  The container classes are declared elsewhere; a container object is represented by what
  the directive can observe of it: the constructors it is an \<open>instanceof\<close>, and the
  current answers of its \<open>path\<close> and \<open>formDirective\<close> getters (\<open>None\<close> is \<open>null\<close>).
\<close>

datatype class_name =
    FormGroupName
  | AbstractFormGroupDirective
  | FormGroupDirective
  | FormArrayName

record container =
  classes :: "class_name list"
  container_path :: "jsval list option"
  container_formDirective :: "addr option"

record formControl =
  control_value :: jsval
  disabled :: bool

text \<open>\<open>setDisabledState\<close> is an optional member of \<open>ControlValueAccessor\<close>.\<close>

record controlValueAccessor =
  accessor_id :: nat
  has_setDisabledState :: bool

text \<open>
  The fields of a \<open>FormControlName\<close> instance: \<open>added\<close> is \<open>_added\<close>, \<open>parent\<close> is
  \<open>_parent\<close>, \<open>rawValidators\<close> and \<open>rawAsyncValidators\<close> are \<open>_rawValidators\<close> and
  \<open>_rawAsyncValidators\<close>. A field that can hold \<open>null\<close> or \<open>undefined\<close> is an option;
  validators are opaque references. There is no field for the path or for a composed
  validator.
\<close>

record directive =
  added :: bool
  viewModel :: jsval
  control :: "formControl option"
  name :: jsval
  model :: jsval
  parent :: "addr option"
  rawValidators :: "addr list option"
  rawAsyncValidators :: "addr list option"
  valueAccessor :: "controlValueAccessor option"

text \<open>
  Calls that leave the directive are recorded in order. \<open>Emit v c\<close> is
  \<open>this.update.emit(v)\<close>, with \<open>c\<close> the content of \<open>viewModel\<close> that a subscriber reads
  while the call runs. The address in the first three events is the form directive the
  method is called on.
\<close>

datatype event =
    AddControl addr
  | UpdateModel addr jsval
  | RemoveControl addr
  | SetDisabledState bool
  | Emit jsval jsval

record world =
  containers :: "addr \<Rightarrow> container"
  trace :: "event list"

type_synonym state = "directive \<times> world"

text \<open>The outcome of a method: the exception it threw, if any, and the state it left.\<close>

type_synonym outcome = "error option \<times> state"

record simpleChange =
  previousValue :: jsval
  currentValue :: jsval
  firstChange :: bool

type_synonym simpleChanges = "string \<rightharpoonup> simpleChange"

text \<open>
  What the code outside this class does when called: the control \<open>addControl\<close> returns
  (or the exception it throws), whether a call without a result throws, and
  \<open>isPropertyUpdated\<close> of \<open>directives/shared.ts\<close>. Each may depend on the whole state at
  the time of the call. The collaborators do not assign the directive's fields.
\<close>

record env =
  addControl_returns :: "world \<Rightarrow> directive \<Rightarrow> error + formControl option"
  raises :: "world \<Rightarrow> directive \<Rightarrow> event \<Rightarrow> error option"
  isPropertyUpdated :: "simpleChanges \<Rightarrow> jsval \<Rightarrow> bool"

definition record_call :: "event \<Rightarrow> world \<Rightarrow> world" where
  "record_call e w = w\<lparr>trace := trace w @ [e]\<rparr>"

text \<open>\<open>p instanceof C\<close>; false when \<open>p\<close> is \<open>null\<close>.\<close>

definition instanceof :: "world \<Rightarrow> addr option \<Rightarrow> class_name \<Rightarrow> bool" where
  "instanceof w p C = (case p of None \<Rightarrow> False | Some a \<Rightarrow> C \<in> set (classes (containers w a)))"

text \<open>
  Modelled from the spec: \<open>ReactiveErrors\<close> (\<open>directives/reactive_errors.ts\<close>) is not
  among the sources. Section 7 has the parent-kind violations raised synchronously as
  fatal, named configuration errors, so each of the two methods throws its own error.
\<close>

definition ngModelGroupException :: "error option" where
  "ngModelGroupException = Some NgModelGroupException"

definition controlParentException :: "error option" where
  "controlParentException = Some ControlParentException"

text \<open>
  Modelled from the spec: \<open>controlPath\<close> (\<open>directives/shared.ts\<close>) is not among the
  sources. Section 4.1: the parent container exposes its own resolved path, the local
  segment is appended, and the resolution fails with \<open>PathResolutionError\<close> when there is
  no parent container to resolve against.
\<close>

definition controlPath :: "jsval \<Rightarrow> container option \<Rightarrow> error + jsval list" where
  "controlPath nm p =
     (case p of
        None \<Rightarrow> Inl PathResolutionError
      | Some c \<Rightarrow>
          (case container_path c of
             None \<Rightarrow> Inl PathResolutionError
           | Some ps \<Rightarrow> Inr (ps @ [nm])))"

text \<open>
  \<^verbatim>\<open>
  get path(): string[] {
    return controlPath(this.name, this._parent!)
  }
  get formDirective(): any {
    return this._parent ? this._parent.formDirective : null
  }
  \<close>
  The getter is written over any \<open>controlPath\<close> (the parameter \<open>cp\<close>); the parent
  object is looked up in the world at the time of the read (\<open>None\<close> when \<open>_parent\<close> is
  \<open>null\<close>).
\<close>

definition path ::
  "(jsval \<Rightarrow> container option \<Rightarrow> 'p) \<Rightarrow> world \<Rightarrow> directive \<Rightarrow> 'p" where
  "path cp w d = cp (name d) (map_option (containers w) (parent d))"

definition formDirective :: "world \<Rightarrow> directive \<Rightarrow> addr option" where
  "formDirective w d =
     (case parent d of
        None \<Rightarrow> None
      | Some p \<Rightarrow> container_formDirective (containers w p))"

text \<open>
  \<^verbatim>\<open>
  get validator(): ValidatorFn | null {
    return composeValidators(this._rawValidators)
  }
  get asyncValidator(): AsyncValidatorFn {
    return composeAsyncValidators(this._rawAsyncValidators)!
  }
  \<close>
  \<open>composeValidators\<close> and \<open>composeAsyncValidators\<close> (\<open>directives/shared.ts\<close>) are
  parameters.
\<close>

definition validator :: "(addr list option \<Rightarrow> 'v) \<Rightarrow> directive \<Rightarrow> 'v" where
  "validator composeValidators d = composeValidators (rawValidators d)"

definition asyncValidator :: "(addr list option \<Rightarrow> 'v) \<Rightarrow> directive \<Rightarrow> 'v" where
  "asyncValidator composeAsyncValidators d = composeAsyncValidators (rawAsyncValidators d)"

text \<open>
  The constructor. \<open>xs || []\<close> is \<open>xs\<close> for an array and \<open>[]\<close> for \<open>null\<close> or
  \<open>undefined\<close>. \<open>selectValueAccessor\<close> (\<open>directives/shared.ts\<close>) is a parameter; it is
  called last, with the instance as built so far, and may throw.
  \<^verbatim>\<open>
    super()
    this._parent = parent
    this._rawValidators = validators || []
    this._rawAsyncValidators = asyncValidators || []
    this.valueAccessor = selectValueAccessor(this, valueAccessors)
  \<close>
\<close>

definition or_empty :: "'a list option \<Rightarrow> 'a list" where
  "or_empty xs = (case xs of None \<Rightarrow> [] | Some ys \<Rightarrow> ys)"

definition new_FormControlName ::
  "(directive \<Rightarrow> controlValueAccessor list option \<Rightarrow> error + controlValueAccessor option)
   \<Rightarrow> addr option \<Rightarrow> addr list option \<Rightarrow> addr list option
   \<Rightarrow> controlValueAccessor list option \<Rightarrow> error + directive" where
  "new_FormControlName selectValueAccessor p validators asyncValidators valueAccessors =
     (let d = \<lparr>added = False, viewModel = JUndefined, control = None, name = JUndefined,
                model = JUndefined, parent = p,
                rawValidators = Some (or_empty validators),
                rawAsyncValidators = Some (or_empty asyncValidators),
                valueAccessor = None\<rparr>
      in case selectValueAccessor d valueAccessors of
           Inl e \<Rightarrow> Inl e
         | Inr va \<Rightarrow> Inr (d\<lparr>valueAccessor := va\<rparr>))"

text \<open>
  \<^verbatim>\<open>
  private _checkParentType(): void {
    if (
      !(this._parent instanceof FormGroupName) &&
      this._parent instanceof AbstractFormGroupDirective
    ) {
      ReactiveErrors.ngModelGroupException()
    } else if (
      !(this._parent instanceof FormGroupName) &&
      !(this._parent instanceof FormGroupDirective) &&
      !(this._parent instanceof FormArrayName)
    ) {
      ReactiveErrors.controlParentException()
    }
  }
  \<close>
\<close>

definition checkParentType :: "world \<Rightarrow> directive \<Rightarrow> error option" where
  "checkParentType w d =
     (if \<not> instanceof w (parent d) FormGroupName
         \<and> instanceof w (parent d) AbstractFormGroupDirective
      then ngModelGroupException
      else if \<not> instanceof w (parent d) FormGroupName
         \<and> \<not> instanceof w (parent d) FormGroupDirective
         \<and> \<not> instanceof w (parent d) FormArrayName
      then controlParentException
      else None)"

text \<open>
  \<^verbatim>\<open>
  private _setUpControl() {
    this._checkParentType()
    ;(this as { control: FormControl }).control = this.formDirective.addControl(this)
    if (this.control.disabled && this.valueAccessor!.setDisabledState) {
      this.valueAccessor!.setDisabledState!(true)
    }
    this._added = true
  }
  \<close>
  A member access on \<open>null\<close> or \<open>undefined\<close> is a TypeError: \<open>addControl\<close> of a missing
  form directive, \<open>disabled\<close> of a missing control, \<open>setDisabledState\<close> of a missing
  accessor (read only when the control is disabled).
\<close>

definition setUpControl :: "env \<Rightarrow> state \<Rightarrow> outcome" where
  "setUpControl E s =
     (case s of (d, w) \<Rightarrow>
        (case checkParentType w d of
           Some e \<Rightarrow> (Some e, (d, w))
         | None \<Rightarrow>
            (case formDirective w d of
               None \<Rightarrow> (Some TypeError, (d, w))
             | Some fd \<Rightarrow>
                (let w1 = record_call (AddControl fd) w in
                 case addControl_returns E w d of
                   Inl e \<Rightarrow> (Some e, (d, w1))
                 | Inr c \<Rightarrow>
                    (let d1 = d\<lparr>control := c\<rparr> in
                     case c of
                       None \<Rightarrow> (Some TypeError, (d1, w1))
                     | Some ctl \<Rightarrow>
                        if disabled ctl then
                          (case valueAccessor d1 of
                             None \<Rightarrow> (Some TypeError, (d1, w1))
                           | Some va \<Rightarrow>
                              if has_setDisabledState va then
                                (case raises E w1 d1 (SetDisabledState True) of
                                   Some e \<Rightarrow>
                                     (Some e, (d1, record_call (SetDisabledState True) w1))
                                 | None \<Rightarrow>
                                     (None, (d1\<lparr>added := True\<rparr>,
                                             record_call (SetDisabledState True) w1)))
                              else (None, (d1\<lparr>added := True\<rparr>, w1)))
                        else (None, (d1\<lparr>added := True\<rparr>, w1)))))))"

text \<open>
  \<^verbatim>\<open>
  ngOnChanges(changes: SimpleChanges) {
    if (!this._added) this._setUpControl()
    if (isPropertyUpdated(changes, this.viewModel)) {
      this.viewModel = this.model
      this.formDirective.updateModel(this, this.model)
    }
  }
  \<close>
\<close>

definition updateModel_branch :: "env \<Rightarrow> simpleChanges \<Rightarrow> state \<Rightarrow> outcome" where
  "updateModel_branch E changes s =
     (case s of (d, w) \<Rightarrow>
        if isPropertyUpdated E changes (viewModel d) then
          (let d1 = d\<lparr>viewModel := model d\<rparr> in
           case formDirective w d1 of
             None \<Rightarrow> (Some TypeError, (d1, w))
           | Some fd \<Rightarrow>
               (raises E w d1 (UpdateModel fd (model d1)),
                (d1, record_call (UpdateModel fd (model d1)) w)))
        else (None, (d, w)))"

definition ngOnChanges :: "env \<Rightarrow> simpleChanges \<Rightarrow> state \<Rightarrow> outcome" where
  "ngOnChanges E changes s =
     (case (if \<not> added (fst s) then setUpControl E s else (None, s)) of
        (Some e, s1) \<Rightarrow> (Some e, s1)
      | (None, s1) \<Rightarrow> updateModel_branch E changes s1)"

text \<open>
  \<^verbatim>\<open>
  ngOnDestroy(): void {
    if (this.formDirective) {
      this.formDirective.removeControl(this)
    }
  }
  \<close>
\<close>

definition ngOnDestroy :: "env \<Rightarrow> state \<Rightarrow> outcome" where
  "ngOnDestroy E s =
     (case s of (d, w) \<Rightarrow>
        (case formDirective w d of
           None \<Rightarrow> (None, (d, w))
         | Some fd \<Rightarrow>
             (raises E w d (RemoveControl fd), (d, record_call (RemoveControl fd) w))))"

text \<open>
  \<^verbatim>\<open>
  viewToModelUpdate(newValue: any): void {
    this.viewModel = newValue
    this.update.emit(newValue)
  }
  \<close>
\<close>

definition viewToModelUpdate :: "env \<Rightarrow> jsval \<Rightarrow> state \<Rightarrow> outcome" where
  "viewToModelUpdate E newValue s =
     (case s of (d, w) \<Rightarrow>
        (let d1 = d\<lparr>viewModel := newValue\<rparr>;
             e = Emit newValue (viewModel d1)
         in (raises E w d1 e, (d1, record_call e w))))"


text \<open>The number of registration calls made so far.\<close>

fun is_AddControl :: "event \<Rightarrow> bool" where
  "is_AddControl (AddControl fd) = True"
| "is_AddControl e = False"

definition registrations :: "world \<Rightarrow> nat" where
  "registrations w = length (filter is_AddControl (trace w))"

text \<open>The number of times the disabled state was applied so far.\<close>

fun is_SetDisabledState :: "event \<Rightarrow> bool" where
  "is_SetDisabledState (SetDisabledState b) = True"
| "is_SetDisabledState e = False"

definition disabled_applications :: "world \<Rightarrow> nat" where
  "disabled_applications w = length (filter is_SetDisabledState (trace w))"

text \<open>
  Everything the host can do to a live instance: call a lifecycle method or write one of
  the two public inputs. Here an exception does not end the run, so every state the
  instance can be in after any calls is covered.
\<close>

datatype call =
    NgOnChanges simpleChanges
  | ViewToModelUpdate jsval
  | NgOnDestroy
  | WriteName jsval
  | WriteModel jsval

fun perform :: "env \<Rightarrow> call \<Rightarrow> state \<Rightarrow> outcome" where
  "perform E (NgOnChanges c) s = ngOnChanges E c s"
| "perform E (ViewToModelUpdate v) s = viewToModelUpdate E v s"
| "perform E NgOnDestroy s = ngOnDestroy E s"
| "perform E (WriteName v) s = (None, ((fst s)\<lparr>name := v\<rparr>, snd s))"
| "perform E (WriteModel v) s = (None, ((fst s)\<lparr>model := v\<rparr>, snd s))"

fun lifecycle :: "env \<Rightarrow> call list \<Rightarrow> state \<Rightarrow> state" where
  "lifecycle E [] s = s"
| "lifecycle E (c # cs) s = lifecycle E cs (snd (perform E c s))"

text \<open>
  Modelled from the spec: \<open>isPropertyUpdated\<close> (\<open>directives/shared.ts\<close>) is not among the
  sources. Section 4.4: the model input counts as updated when its new value differs,
  by the value-identity check, from the last-seen cached value; without a change of the
  model input there is nothing to compare. Used where a concrete environment is needed.
\<close>

definition isPropertyUpdated_shared ::
  "(jsval \<Rightarrow> error + float64) \<Rightarrow> simpleChanges \<Rightarrow> jsval \<Rightarrow> bool" where
  "isPropertyUpdated_shared coerce changes cached =
     (case changes ''model'' of
        None \<Rightarrow> False
      | Some ch \<Rightarrow> looseIdentical coerce cached (currentValue ch) \<noteq> Inr True)"

subsection \<open>A concrete form\<close>

text \<open>
  The form of the spec's first scenario, \<open>{ name, address: { city } }\<close>: the root form
  directive at address 0, the \<open>formGroupName="address"\<close> container at 1, and at 2 a
  group of the template-driven style (an \<open>AbstractFormGroupDirective\<close> that is not a
  \<open>FormGroupName\<close>). Any other address holds an object that is no container.
\<close>

definition scenario_containers :: "addr \<Rightarrow> container" where
  "scenario_containers =
     (\<lambda>a. \<lparr>classes = [], container_path = None, container_formDirective = None\<rparr>)
       (0 := \<lparr>classes = [FormGroupDirective], container_path = Some [],
              container_formDirective = Some 0\<rparr>,
        1 := \<lparr>classes = [FormGroupName, AbstractFormGroupDirective],
              container_path = Some [JStr ''address''], container_formDirective = Some 0\<rparr>,
        2 := \<lparr>classes = [AbstractFormGroupDirective],
              container_path = Some [JStr ''address''], container_formDirective = None\<rparr>)"

definition scenario_world :: world where
  "scenario_world = \<lparr>containers = scenario_containers, trace = []\<rparr>"

definition scenario_accessor :: controlValueAccessor where
  "scenario_accessor = \<lparr>accessor_id = 0, has_setDisabledState = True\<rparr>"

definition scenario_control :: formControl where
  "scenario_control = \<lparr>control_value = JStr [], disabled = True\<rparr>"

definition scenario_env :: env where
  "scenario_env =
     \<lparr>addControl_returns = (\<lambda>w d. Inr (Some scenario_control)),
      raises = (\<lambda>w d e. None),
      isPropertyUpdated = isPropertyUpdated_shared (\<lambda>v. Inr NaN)\<rparr>"

text \<open>The \<open>formControlName="city"\<close> directive under a parent, before its first pass.\<close>

definition scenario_directive :: "addr option \<Rightarrow> directive" where
  "scenario_directive p =
     \<lparr>added = False, viewModel = JUndefined, control = None, name = JStr ''city'',
      model = JUndefined, parent = p, rawValidators = Some [], rawAsyncValidators = Some [],
      valueAccessor = Some scenario_accessor\<rparr>"

text \<open>The same directive once registered under the \<open>address\<close> group.\<close>

definition scenario_registered :: state where
  "scenario_registered =
     ((scenario_directive (Some 1))\<lparr>control := Some scenario_control, added := True\<rparr>,
      \<lparr>containers = scenario_containers, trace = [AddControl 0, SetDisabledState True]\<rparr>)"

text \<open>The \<open>SimpleChanges\<close> of a pass in which only the name input changed its value.\<close>

definition name_changed :: simpleChanges where
  "name_changed =
     [''name'' \<mapsto> \<lparr>previousValue = JStr ''city'', currentValue = JStr ''town'',
                    firstChange = False\<rparr>]"

section \<open>The value-identity check\<close>

lemma typeof_number: "(typeof v = ''number'') = (\<exists>x. v = JNum x)"
  by (cases v) simp_all

lemma is_nan_NaN: "is_nan NaN"
  by (simp add: is_nan_def NaN_def)

lemma isNaN_JNum: "isNaN coerce (JNum x) = Inr (is_nan x)"
  by (simp add: isNaN_def)

text \<open>
  C3. \<open>looseIdentical\<close> never raises, and for all \<open>a\<close>, \<open>b\<close> it is true exactly when
  \<open>a === b\<close> or both are numbers that are NaN, whatever the conversion of non-numbers
  does; \<open>looseIdentical(NaN, NaN)\<close> is true while \<open>NaN === NaN\<close> is false.
\<close>

theorem looseIdentical_iff:
  "looseIdentical coerce a b = Inr (strictEquals a b \<or> (is_NaN_number a \<and> is_NaN_number b))
   \<and> looseIdentical coerce (JNum NaN) (JNum NaN) = Inr True
   \<and> strictEquals (JNum NaN) (JNum NaN) = False"
proof -
  have general: "looseIdentical coerce a b
      = Inr (strictEquals a b \<or> (is_NaN_number a \<and> is_NaN_number b))" for a b
  proof (cases "\<exists>x y. a = JNum x \<and> b = JNum y")
    case True
    then obtain x y where "a = JNum x" "b = JNum y" by blast
    then show ?thesis
      by (simp add: looseIdentical_def isNaN_JNum)
  next
    case False
    then have "\<not> (is_NaN_number a \<and> is_NaN_number b)"
      by (cases a; cases b) simp_all
    moreover from False have "\<not> (typeof a = ''number'' \<and> typeof b = ''number'')"
      by (simp add: typeof_number)
    ultimately show ?thesis
      by (auto simp add: looseIdentical_def)
  qed
  have "strictEquals (JNum NaN) (JNum NaN) = False"
    using is_nan_NaN by (simp add: number_equal_def)
  moreover have "looseIdentical coerce (JNum NaN) (JNum NaN) = Inr True"
    using is_nan_NaN by (simp add: general)
  ultimately show ?thesis
    using general by blast
qed

section \<open>What each method leaves untouched\<close>

lemmas scenario_defs =
  scenario_directive_def scenario_world_def scenario_containers_def scenario_env_def
  scenario_registered_def scenario_control_def scenario_accessor_def name_changed_def
  isPropertyUpdated_shared_def

lemmas method_defs =
  ngOnChanges_def setUpControl_def updateModel_branch_def checkParentType_def
  instanceof_def formDirective_def record_call_def ngModelGroupException_def
  controlParentException_def registrations_def disabled_applications_def

lemma registrations_record_call:
  "registrations (record_call e w) = registrations w + (if is_AddControl e then 1 else 0)"
  by (simp add: registrations_def record_call_def)

lemma disabled_applications_record_call:
  "disabled_applications (record_call e w)
     = disabled_applications w + (if is_SetDisabledState e then 1 else 0)"
  by (simp add: disabled_applications_def record_call_def)

lemma containers_record_call: "containers (record_call e w) = containers w"
  by (simp add: record_call_def)

lemma trace_record_call: "trace (record_call e w) = trace w @ [e]"
  by (simp add: record_call_def)

lemmas count_simps =
  registrations_record_call disabled_applications_record_call containers_record_call

lemma new_FormControlName_fields:
  assumes "new_FormControlName sel p vs avs vas = Inr d"
  shows "\<not> added d \<and> control d = None \<and> parent d = p
    \<and> rawValidators d = Some (or_empty vs) \<and> rawAsyncValidators d = Some (or_empty avs)"
  using assms by (auto simp add: new_FormControlName_def Let_def split: sum.splits)



lemma setUpControl_frame:
  assumes "setUpControl E (d, w) = (r, (d', w'))"
  shows "registrations w' \<le> registrations w + 1
    \<and> disabled_applications w' \<le> disabled_applications w + 1
    \<and> containers w' = containers w
    \<and> parent d' = parent d \<and> name d' = name d \<and> model d' = model d
    \<and> viewModel d' = viewModel d
    \<and> rawValidators d' = rawValidators d \<and> rawAsyncValidators d' = rawAsyncValidators d
    \<and> valueAccessor d' = valueAccessor d"
  using assms
  by (auto simp add: setUpControl_def Let_def count_simps
      split: option.splits sum.splits if_splits)

lemma updateModel_branch_frame:
  assumes "updateModel_branch E c (d, w) = (r, (d', w'))"
  shows "registrations w' = registrations w
    \<and> disabled_applications w' = disabled_applications w
    \<and> containers w' = containers w
    \<and> added d' = added d \<and> control d' = control d
    \<and> parent d' = parent d \<and> name d' = name d \<and> model d' = model d
    \<and> rawValidators d' = rawValidators d \<and> rawAsyncValidators d' = rawAsyncValidators d
    \<and> valueAccessor d' = valueAccessor d"
  using assms
  by (auto simp add: updateModel_branch_def Let_def count_simps
      split: option.splits if_splits)

lemma ngOnChanges_added:
  "added d \<Longrightarrow> ngOnChanges E c (d, w) = updateModel_branch E c (d, w)"
  by (simp add: ngOnChanges_def)


lemma ngOnChanges_frame:
  assumes "ngOnChanges E c (d, w) = (r, (d', w'))"
  shows "containers w' = containers w \<and> parent d' = parent d \<and> name d' = name d
    \<and> model d' = model d
    \<and> rawValidators d' = rawValidators d \<and> rawAsyncValidators d' = rawAsyncValidators d
    \<and> valueAccessor d' = valueAccessor d"
proof (cases "added d")
  case True
  with assms have "updateModel_branch E c (d, w) = (r, (d', w'))"
    by (simp add: ngOnChanges_added)
  from updateModel_branch_frame [OF this] show ?thesis by simp
next
  case False
  show ?thesis
  proof (cases "setUpControl E (d, w)")
    case (fields r1 d1 w1)
    note frame1 = setUpControl_frame [OF fields]
    show ?thesis
    proof (cases r1)
      case None
      with fields False assms have "updateModel_branch E c (d1, w1) = (r, (d', w'))"
        by (simp add: ngOnChanges_def)
      from updateModel_branch_frame [OF this] frame1 show ?thesis by simp
    next
      case (Some e)
      with fields False assms have "d' = d1" "w' = w1"
        by (simp_all add: ngOnChanges_def)
      with frame1 show ?thesis by simp
    qed
  qed
qed


lemma perform_frame:
  assumes "perform E c (d, w) = (r, (d', w'))"
  shows "containers w' = containers w \<and> parent d' = parent d
    \<and> rawValidators d' = rawValidators d \<and> rawAsyncValidators d' = rawAsyncValidators d
    \<and> valueAccessor d' = valueAccessor d"
proof (cases c)
  case (NgOnChanges ch)
  with assms have "ngOnChanges E ch (d, w) = (r, (d', w'))" by simp
  from ngOnChanges_frame [OF this] show ?thesis by simp
next
  case (ViewToModelUpdate v)
  with assms show ?thesis
    by (auto simp add: viewToModelUpdate_def Let_def containers_record_call)
next
  case NgOnDestroy
  with assms show ?thesis
    by (auto simp add: ngOnDestroy_def containers_record_call split: option.splits)
next
  case (WriteName v)
  with assms show ?thesis by auto
next
  case (WriteModel v)
  with assms show ?thesis by auto
qed

lemma lifecycle_frame:
  "containers (snd (lifecycle E cs (d, w))) = containers w
   \<and> parent (fst (lifecycle E cs (d, w))) = parent d
   \<and> rawValidators (fst (lifecycle E cs (d, w))) = rawValidators d
   \<and> rawAsyncValidators (fst (lifecycle E cs (d, w))) = rawAsyncValidators d
   \<and> valueAccessor (fst (lifecycle E cs (d, w))) = valueAccessor d"
proof (induction cs arbitrary: d w)
  case Nil
  show ?case by simp
next
  case (Cons c cs)
  obtain r1 d1 w1 where first: "perform E c (d, w) = (r1, (d1, w1))"
    by (metis surj_pair)
  from perform_frame [OF first] Cons.IH [of d1 w1] first show ?case
    by simp
qed




section \<open>Registration happens once, on the first pass\<close>


lemma scenario_first_pass:
  "ngOnChanges scenario_env Map.empty (scenario_directive (Some 1), scenario_world)
     = (None, scenario_registered)"
  by (simp add: method_defs scenario_defs)

lemma scenario_rename_pass:
  "ngOnChanges scenario_env name_changed
       ((fst scenario_registered)\<lparr>name := JStr ''town''\<rparr>, snd scenario_registered)
     = (None, ((fst scenario_registered)\<lparr>name := JStr ''town''\<rparr>, snd scenario_registered))"
  by (simp add: method_defs scenario_defs)





section \<open>The parent-kind check\<close>

text \<open>
  C2. In \<open>_setUpControl\<close> the parent-kind check comes before the registration call. A
  parent that is an \<open>AbstractFormGroupDirective\<close> but not a \<open>FormGroupName\<close> raises the
  model-group error; otherwise a parent that is none of \<open>FormGroupName\<close>,
  \<open>FormGroupDirective\<close>, \<open>FormArrayName\<close> raises the control-parent error; the two errors
  differ; in both cases the state is left as it was (no field assigned, no call made),
  also when the setup is started by \<open>ngOnChanges\<close>. Whenever \<open>addControl\<close> has been
  called, the check had passed.
\<close>

theorem checkParentType_precedes_addControl:
  "(\<not> instanceof w (parent d) FormGroupName
      \<and> instanceof w (parent d) AbstractFormGroupDirective
      \<longrightarrow> setUpControl E (d, w) = (Some NgModelGroupException, (d, w)))
   \<and> (\<not> instanceof w (parent d) AbstractFormGroupDirective
      \<and> \<not> instanceof w (parent d) FormGroupName
      \<and> \<not> instanceof w (parent d) FormGroupDirective
      \<and> \<not> instanceof w (parent d) FormArrayName
      \<longrightarrow> setUpControl E (d, w) = (Some ControlParentException, (d, w)))
   \<and> NgModelGroupException \<noteq> ControlParentException
   \<and> (\<not> added d \<and> checkParentType w d = Some e
      \<longrightarrow> ngOnChanges E c (d, w) = (Some e, (d, w)))
   \<and> (registrations (snd (snd (setUpControl E (d, w)))) \<noteq> registrations w
      \<longrightarrow> checkParentType w d = None
        \<and> (instanceof w (parent d) FormGroupName
           \<or> instanceof w (parent d) FormGroupDirective
           \<or> instanceof w (parent d) FormArrayName))"
proof -
  have group: "setUpControl E (d, w) = (Some NgModelGroupException, (d, w))"
    if "\<not> instanceof w (parent d) FormGroupName"
      and "instanceof w (parent d) AbstractFormGroupDirective"
    using that
    by (simp add: setUpControl_def checkParentType_def ngModelGroupException_def)
  have other: "setUpControl E (d, w) = (Some ControlParentException, (d, w))"
    if "\<not> instanceof w (parent d) AbstractFormGroupDirective"
      and "\<not> instanceof w (parent d) FormGroupName"
      and "\<not> instanceof w (parent d) FormGroupDirective"
      and "\<not> instanceof w (parent d) FormArrayName"
    using that
    by (simp add: setUpControl_def checkParentType_def controlParentException_def)
  have stopped: "setUpControl E (d, w) = (Some x, (d, w))" if "checkParentType w d = Some x"
    for x
    using that by (simp add: setUpControl_def)
  have pass: "ngOnChanges E c (d, w) = (Some e, (d, w))"
    if "\<not> added d" and "checkParentType w d = Some e"
    using that stopped by (simp add: ngOnChanges_def)
  have passed: "checkParentType w d = None"
    if "registrations (snd (snd (setUpControl E (d, w)))) \<noteq> registrations w"
  proof (cases "checkParentType w d")
    case None
    then show ?thesis .
  next
    case (Some x)
    with stopped [of x] that show ?thesis by simp
  qed
  have kinds: "instanceof w (parent d) FormGroupName
      \<or> instanceof w (parent d) FormGroupDirective
      \<or> instanceof w (parent d) FormArrayName"
    if "checkParentType w d = None"
    using that
    by (auto simp add: checkParentType_def ngModelGroupException_def
        controlParentException_def split: if_splits)
  from group other pass passed kinds show ?thesis
    by simp
qed

theorem checkParentType_precedes_addControl_witness:
  "setUpControl scenario_env (scenario_directive (Some 2), scenario_world)
     = (Some NgModelGroupException, (scenario_directive (Some 2), scenario_world))
   \<and> setUpControl scenario_env (scenario_directive None, scenario_world)
     = (Some ControlParentException, (scenario_directive None, scenario_world))
   \<and> ngOnChanges scenario_env Map.empty (scenario_directive None, scenario_world)
     = (Some ControlParentException, (scenario_directive None, scenario_world))
   \<and> registrations
        (snd (snd (setUpControl scenario_env (scenario_directive (Some 1), scenario_world))))
     \<noteq> registrations scenario_world
   \<and> checkParentType scenario_world (scenario_directive (Some 1)) = None"
proof -
  have wrong_style:
    "\<not> instanceof scenario_world (parent (scenario_directive (Some 2))) FormGroupName
     \<and> instanceof scenario_world (parent (scenario_directive (Some 2)))
         AbstractFormGroupDirective"
    by (simp add: instanceof_def scenario_defs)
  have no_parent:
    "\<not> instanceof scenario_world (parent (scenario_directive None)) AbstractFormGroupDirective
     \<and> \<not> instanceof scenario_world (parent (scenario_directive None)) FormGroupName
     \<and> \<not> instanceof scenario_world (parent (scenario_directive None)) FormGroupDirective
     \<and> \<not> instanceof scenario_world (parent (scenario_directive None)) FormArrayName"
    by (simp add: instanceof_def scenario_defs)
  have at_root: "\<not> added (scenario_directive None)
     \<and> checkParentType scenario_world (scenario_directive None) = Some ControlParentException"
    by (simp add: checkParentType_def controlParentException_def instanceof_def scenario_defs)
  have called: "registrations
        (snd (snd (setUpControl scenario_env (scenario_directive (Some 1), scenario_world))))
     \<noteq> registrations scenario_world"
    by (simp add: method_defs scenario_defs)
  note group = checkParentType_precedes_addControl
    [where w = scenario_world and d = "scenario_directive (Some 2)" and E = scenario_env]
  note root = checkParentType_precedes_addControl
    [where w = scenario_world and d = "scenario_directive None" and E = scenario_env
       and e = ControlParentException and c = Map.empty]
  note nested = checkParentType_precedes_addControl
    [where w = scenario_world and d = "scenario_directive (Some 1)" and E = scenario_env]
  from group wrong_style
  have a: "setUpControl scenario_env (scenario_directive (Some 2), scenario_world)
      = (Some NgModelGroupException, (scenario_directive (Some 2), scenario_world))"
    by blast
  from root no_parent
  have b: "setUpControl scenario_env (scenario_directive None, scenario_world)
      = (Some ControlParentException, (scenario_directive None, scenario_world))"
    by blast
  from root at_root
  have c: "ngOnChanges scenario_env Map.empty (scenario_directive None, scenario_world)
      = (Some ControlParentException, (scenario_directive None, scenario_world))"
    by blast
  from nested called
  have d: "checkParentType scenario_world (scenario_directive (Some 1)) = None"
    by blast
  from a b c called d show ?thesis
    by blast
qed

section \<open>Renaming a registered directive\<close>

text \<open>
  C4, as stated, fails: the registered \<open>city\<close> directive of the scenario is renamed to
  \<open>town\<close>, \<open>ngOnChanges\<close> is called with the change of the name input, and it returns
  without an error; the path read afterwards ends in the new name.
\<close>

theorem rename_after_registration_not_rejected:
  "ngOnChanges scenario_env Map.empty (scenario_directive (Some 1), scenario_world)
     = (None, scenario_registered)
   \<and> added (fst scenario_registered)
   \<and> fst (ngOnChanges scenario_env name_changed
            ((fst scenario_registered)\<lparr>name := JStr ''town''\<rparr>, snd scenario_registered))
     = None
   \<and> path controlPath (snd scenario_registered) (fst scenario_registered)
     = Inr [JStr ''address'', JStr ''city'']
   \<and> path controlPath (snd scenario_registered)
        ((fst scenario_registered)\<lparr>name := JStr ''town''\<rparr>)
     = Inr [JStr ''address'', JStr ''town'']"
proof -
  have "added (fst scenario_registered)"
    by (simp add: scenario_defs)
  moreover have "path controlPath (snd scenario_registered) (fst scenario_registered)
      = Inr [JStr ''address'', JStr ''city'']"
    by (simp add: path_def controlPath_def scenario_defs)
  moreover have "path controlPath (snd scenario_registered)
      ((fst scenario_registered)\<lparr>name := JStr ''town''\<rparr>)
      = Inr [JStr ''address'', JStr ''town'']"
    by (simp add: path_def controlPath_def scenario_defs)
  moreover have "fst (ngOnChanges scenario_env name_changed
      ((fst scenario_registered)\<lparr>name := JStr ''town''\<rparr>, snd scenario_registered)) = None"
    by (simp add: scenario_rename_pass)
  ultimately show ?thesis
    using scenario_first_pass by blast
qed

text \<open>
  C4, amended. Once \<open>_added\<close> is set, an \<open>ngOnChanges\<close> invocation made after the name
  input changed does not run the setup again and raises nothing for the rename: it is
  the model-update branch alone, so it calls neither \<open>addControl\<close> nor
  \<open>setDisabledState\<close>, keeps \<open>control\<close> and the new name, and when the model input is not
  updated it returns normally with the state as it was.
\<close>

theorem rename_after_registration:
  assumes "added d"
  shows "ngOnChanges E c (d\<lparr>name := n\<rparr>, w) = updateModel_branch E c (d\<lparr>name := n\<rparr>, w)
    \<and> (\<not> isPropertyUpdated E c (viewModel d)
        \<longrightarrow> ngOnChanges E c (d\<lparr>name := n\<rparr>, w) = (None, (d\<lparr>name := n\<rparr>, w)))
    \<and> registrations (snd (snd (ngOnChanges E c (d\<lparr>name := n\<rparr>, w)))) = registrations w
    \<and> disabled_applications (snd (snd (ngOnChanges E c (d\<lparr>name := n\<rparr>, w))))
        = disabled_applications w
    \<and> control (fst (snd (ngOnChanges E c (d\<lparr>name := n\<rparr>, w)))) = control d
    \<and> name (fst (snd (ngOnChanges E c (d\<lparr>name := n\<rparr>, w)))) = n
    \<and> added (fst (snd (ngOnChanges E c (d\<lparr>name := n\<rparr>, w))))"
proof -
  from assms have same: "ngOnChanges E c (d\<lparr>name := n\<rparr>, w)
      = updateModel_branch E c (d\<lparr>name := n\<rparr>, w)"
    by (simp add: ngOnChanges_added)
  obtain r d' w' where out: "updateModel_branch E c (d\<lparr>name := n\<rparr>, w) = (r, (d', w'))"
    by (metis surj_pair)
  have quiet: "updateModel_branch E c (d\<lparr>name := n\<rparr>, w) = (None, (d\<lparr>name := n\<rparr>, w))"
    if "\<not> isPropertyUpdated E c (viewModel d)"
    using that by (simp add: updateModel_branch_def)
  from updateModel_branch_frame [OF out] assms same out quiet show ?thesis
    by simp
qed

theorem rename_after_registration_witness:
  "added (fst scenario_registered)
   \<and> \<not> isPropertyUpdated scenario_env name_changed (viewModel (fst scenario_registered))
   \<and> ngOnChanges scenario_env name_changed
        ((fst scenario_registered)\<lparr>name := JStr ''town''\<rparr>, snd scenario_registered)
     = (None, ((fst scenario_registered)\<lparr>name := JStr ''town''\<rparr>, snd scenario_registered))"
proof -
  have registered: "added (fst scenario_registered)"
    by (simp add: scenario_defs)
  have quiet: "\<not> isPropertyUpdated scenario_env name_changed
      (viewModel (fst scenario_registered))"
    by (simp add: scenario_defs)
  from rename_after_registration [OF registered, where E = scenario_env
      and c = name_changed and n = "JStr ''town''" and w = "snd scenario_registered"] quiet
  have "ngOnChanges scenario_env name_changed
        ((fst scenario_registered)\<lparr>name := JStr ''town''\<rparr>, snd scenario_registered)
     = (None, ((fst scenario_registered)\<lparr>name := JStr ''town''\<rparr>, snd scenario_registered))"
    by blast
  with registered quiet show ?thesis
    by blast
qed

section \<open>Derived values: the path and the composed validators\<close>

text \<open>
  C5. The path is computed at each read, by \<open>controlPath\<close>, from the name and the parent
  container as they are then. Whatever \<open>controlPath\<close> computes: two reads with the same
  name and the same parent object in the same state give the same result, whatever else
  differs in the directive and in the world; and after any calls on the instance,
  registration included, a read in a world whose containers have since been edited is
  \<open>controlPath\<close> of the current name and the edited parent. With \<open>controlPath\<close> as the
  spec has it, the result is the parent's current path with the name appended.
\<close>

theorem path_recomputed_on_read:
  "(parent d = Some p \<and> container_path (containers w p) = Some ps
      \<longrightarrow> path controlPath w d = Inr (ps @ [name d]))
   \<and> (name d1 = name d2 \<and> parent d1 = parent d2
       \<and> (\<forall>q. parent d1 = Some q \<longrightarrow> containers w1 q = containers w2 q)
      \<longrightarrow> path cp w1 d1 = path cp w2 d2)
   \<and> (parent d = Some p
      \<longrightarrow> path cp ((snd (lifecycle E cs (d, w)))\<lparr>containers := edited\<rparr>)
               (fst (lifecycle E cs (d, w)))
           = cp (name (fst (lifecycle E cs (d, w)))) (Some (edited p)))
   \<and> (parent d = Some p \<and> container_path (edited p) = Some ps'
      \<longrightarrow> path controlPath ((snd (lifecycle E cs (d, w)))\<lparr>containers := edited\<rparr>)
               (fst (lifecycle E cs (d, w)))
           = Inr (ps' @ [name (fst (lifecycle E cs (d, w)))]))"
proof -
  have now: "path controlPath w d = Inr (ps @ [name d])"
    if "parent d = Some p" and "container_path (containers w p) = Some ps"
    using that by (simp add: path_def controlPath_def)
  have same: "path cp w1 d1 = path cp w2 d2"
    if "name d1 = name d2" and "parent d1 = parent d2"
      and "\<forall>q. parent d1 = Some q \<longrightarrow> containers w1 q = containers w2 q"
    using that by (cases "parent d2") (simp_all add: path_def)
  have later: "path f ((snd (lifecycle E cs (d, w)))\<lparr>containers := edited\<rparr>)
               (fst (lifecycle E cs (d, w)))
           = f (name (fst (lifecycle E cs (d, w)))) (Some (edited p))"
    if "parent d = Some p" for f :: "jsval \<Rightarrow> container option \<Rightarrow> 'x"
  proof -
    from lifecycle_frame [of E cs d w] that
    have "parent (fst (lifecycle E cs (d, w))) = Some p" by simp
    then show ?thesis
      by (simp add: path_def)
  qed
  have later_path: "path controlPath ((snd (lifecycle E cs (d, w)))\<lparr>containers := edited\<rparr>)
               (fst (lifecycle E cs (d, w)))
           = Inr (ps' @ [name (fst (lifecycle E cs (d, w)))])"
    if "parent d = Some p" and "container_path (edited p) = Some ps'"
    using later [OF that(1), of controlPath] that(2)
    by (simp add: controlPath_def)
  from now same later [of cp] later_path show ?thesis
    by blast
qed

theorem path_recomputed_on_read_witness:
  "parent (scenario_directive (Some 1)) = Some 1
   \<and> container_path (containers scenario_world 1) = Some [JStr ''address'']
   \<and> path controlPath scenario_world (scenario_directive (Some 1))
       = Inr [JStr ''address'', JStr ''city'']
   \<and> container_path
        ((scenario_containers (1 := (scenario_containers 1)
            \<lparr>container_path := Some [JStr ''location'']\<rparr>)) 1) = Some [JStr ''location'']
   \<and> path controlPath
           ((snd (lifecycle scenario_env [NgOnChanges Map.empty]
                    (scenario_directive (Some 1), scenario_world)))
              \<lparr>containers := scenario_containers (1 := (scenario_containers 1)
                 \<lparr>container_path := Some [JStr ''location'']\<rparr>)\<rparr>)
           (fst (lifecycle scenario_env [NgOnChanges Map.empty]
                   (scenario_directive (Some 1), scenario_world)))
       = Inr [JStr ''location'', JStr ''city'']"
proof -
  have nested: "parent (scenario_directive (Some 1)) = Some 1"
    by (simp add: scenario_directive_def)
  have before: "container_path (containers scenario_world 1) = Some [JStr ''address'']"
    by (simp add: scenario_defs)
  have after: "container_path
        ((scenario_containers (1 := (scenario_containers 1)
            \<lparr>container_path := Some [JStr ''location'']\<rparr>)) 1) = Some [JStr ''location'']"
    by simp
  have city: "name (fst (lifecycle scenario_env [NgOnChanges Map.empty]
                   (scenario_directive (Some 1), scenario_world))) = JStr ''city''"
    using scenario_first_pass by (simp add: scenario_defs)
  note read = path_recomputed_on_read
    [where d = "scenario_directive (Some 1)" and p = 1 and w = scenario_world
       and ps = "[JStr ''address'']" and ps' = "[JStr ''location'']"
       and edited = "scenario_containers (1 := (scenario_containers 1)
            \<lparr>container_path := Some [JStr ''location'']\<rparr>)"
       and E = scenario_env and cs = "[NgOnChanges Map.empty]" and cp = controlPath]
  from read nested before
  have a: "path controlPath scenario_world (scenario_directive (Some 1))
      = Inr ([JStr ''address''] @ [name (scenario_directive (Some 1))])"
    by blast
  from read nested after
  have b: "path controlPath
           ((snd (lifecycle scenario_env [NgOnChanges Map.empty]
                    (scenario_directive (Some 1), scenario_world)))
              \<lparr>containers := scenario_containers (1 := (scenario_containers 1)
                 \<lparr>container_path := Some [JStr ''location'']\<rparr>)\<rparr>)
           (fst (lifecycle scenario_env [NgOnChanges Map.empty]
                   (scenario_directive (Some 1), scenario_world)))
       = Inr ([JStr ''location''] @ [name (fst (lifecycle scenario_env [NgOnChanges Map.empty]
                   (scenario_directive (Some 1), scenario_world)))])"
    by blast
  from a have a': "path controlPath scenario_world (scenario_directive (Some 1))
      = Inr [JStr ''address'', JStr ''city'']"
    by (simp add: scenario_directive_def)
  from b city have b': "path controlPath
           ((snd (lifecycle scenario_env [NgOnChanges Map.empty]
                    (scenario_directive (Some 1), scenario_world)))
              \<lparr>containers := scenario_containers (1 := (scenario_containers 1)
                 \<lparr>container_path := Some [JStr ''location'']\<rparr>)\<rparr>)
           (fst (lifecycle scenario_env [NgOnChanges Map.empty]
                   (scenario_directive (Some 1), scenario_world)))
       = Inr [JStr ''location'', JStr ''city'']"
    by simp
  from nested before a' after b' show ?thesis
    by blast
qed

text \<open>
  C8. Each read of \<open>validator\<close> (of \<open>asyncValidator\<close>) is \<open>composeValidators\<close> (is
  \<open>composeAsyncValidators\<close>) applied to the raw list the directive holds at that moment,
  whatever the composition function is: once the raw list is replaced, the next read is
  the composite of the new list, and no call on the instance changes what a read returns.
\<close>

theorem validators_recomputed_on_read:
  "validator composeValidators (d\<lparr>rawValidators := xs\<rparr>) = composeValidators xs
   \<and> asyncValidator composeAsyncValidators (d\<lparr>rawAsyncValidators := ys\<rparr>)
       = composeAsyncValidators ys
   \<and> validator composeValidators (fst (lifecycle E cs (d, w)))
       = composeValidators (rawValidators d)
   \<and> asyncValidator composeAsyncValidators (fst (lifecycle E cs (d, w)))
       = composeAsyncValidators (rawAsyncValidators d)
   \<and> validator composeValidators ((fst (lifecycle E cs (d, w)))\<lparr>rawValidators := xs\<rparr>)
       = composeValidators xs
   \<and> asyncValidator composeAsyncValidators
         ((fst (lifecycle E cs (d, w)))\<lparr>rawAsyncValidators := ys\<rparr>)
       = composeAsyncValidators ys"
  using lifecycle_frame [of E cs d w]
  by (simp add: validator_def asyncValidator_def)

theorem validators_recomputed_on_read_witness:
  "validator (map_option length) (scenario_directive (Some 1)) = Some 0
   \<and> validator (map_option length)
        ((scenario_directive (Some 1))\<lparr>rawValidators := Some [7, 8]\<rparr>) = Some 2
   \<and> validator (map_option length)
        (fst (lifecycle scenario_env [NgOnChanges Map.empty, NgOnDestroy]
                ((scenario_directive (Some 1))\<lparr>rawValidators := Some [7, 8]\<rparr>,
                 scenario_world))) = Some 2"
proof -
  note read = validators_recomputed_on_read
    [where composeValidators = "map_option length"
       and composeAsyncValidators = "map_option length" and E = scenario_env
       and cs = "[NgOnChanges Map.empty, NgOnDestroy]" and w = scenario_world
       and xs = "Some [7, 8]" and ys = None]
  have empty: "validator (map_option length) (scenario_directive (Some 1)) = Some 0"
    by (simp add: validator_def scenario_directive_def)
  from read [where d = "scenario_directive (Some 1)"]
  have "validator (map_option length)
        ((scenario_directive (Some 1))\<lparr>rawValidators := Some [7, 8]\<rparr>)
      = map_option length (Some [7, 8 :: addr])"
    by blast
  then have replaced: "validator (map_option length)
        ((scenario_directive (Some 1))\<lparr>rawValidators := Some [7, 8]\<rparr>) = Some 2"
    by simp
  from read [where d = "(scenario_directive (Some 1))\<lparr>rawValidators := Some [7, 8]\<rparr>"]
  have "validator (map_option length)
        (fst (lifecycle scenario_env [NgOnChanges Map.empty, NgOnDestroy]
                ((scenario_directive (Some 1))\<lparr>rawValidators := Some [7, 8]\<rparr>,
                 scenario_world)))
      = map_option length
          (rawValidators ((scenario_directive (Some 1))\<lparr>rawValidators := Some [7, 8]\<rparr>))"
    by blast
  then have kept: "validator (map_option length)
        (fst (lifecycle scenario_env [NgOnChanges Map.empty, NgOnDestroy]
                ((scenario_directive (Some 1))\<lparr>rawValidators := Some [7, 8]\<rparr>,
                 scenario_world))) = Some 2"
    by simp
  from empty replaced kept show ?thesis
    by blast
qed

text \<open>
  C10. A directive the constructor returns holds raw validator lists that are arrays,
  never \<open>null\<close>: the injected list where one was injected, the empty list where it was
  absent. The lists stay so through every call on the instance, so both getters always
  compose over an array.
\<close>

theorem constructor_normalizes_validator_lists:
  assumes "new_FormControlName sel p vs avs vas = Inr d"
  shows "rawValidators d = Some (or_empty vs) \<and> rawAsyncValidators d = Some (or_empty avs)
    \<and> (vs = None \<longrightarrow> rawValidators d = Some [])
    \<and> (avs = None \<longrightarrow> rawAsyncValidators d = Some [])
    \<and> (\<forall>xs. vs = Some xs \<longrightarrow> rawValidators d = Some xs)
    \<and> (\<forall>ys. avs = Some ys \<longrightarrow> rawAsyncValidators d = Some ys)
    \<and> rawValidators (fst (lifecycle E cs (d, w))) \<noteq> None
    \<and> rawAsyncValidators (fst (lifecycle E cs (d, w))) \<noteq> None
    \<and> validator composeValidators (fst (lifecycle E cs (d, w)))
        = composeValidators (Some (or_empty vs))
    \<and> asyncValidator composeAsyncValidators (fst (lifecycle E cs (d, w)))
        = composeAsyncValidators (Some (or_empty avs))"
  using new_FormControlName_fields [OF assms] lifecycle_frame [of E cs d w]
  by (simp add: validator_def asyncValidator_def or_empty_def)

theorem constructor_normalizes_validator_lists_witness:
  "new_FormControlName (\<lambda>d vas. Inr None) (Some 1) None (Some [4]) None
     = Inr ((scenario_directive (Some 1))
              \<lparr>name := JUndefined, rawAsyncValidators := Some [4], valueAccessor := None\<rparr>)
   \<and> rawValidators ((scenario_directive (Some 1))
        \<lparr>name := JUndefined, rawAsyncValidators := Some [4], valueAccessor := None\<rparr>)
      = Some []
   \<and> rawAsyncValidators ((scenario_directive (Some 1))
        \<lparr>name := JUndefined, rawAsyncValidators := Some [4], valueAccessor := None\<rparr>)
      = Some [4]"
proof -
  have built: "new_FormControlName (\<lambda>d vas. Inr None) (Some 1) None (Some [4]) None
     = Inr ((scenario_directive (Some 1))
              \<lparr>name := JUndefined, rawAsyncValidators := Some [4], valueAccessor := None\<rparr>)"
    by (simp add: new_FormControlName_def or_empty_def scenario_directive_def)
  from constructor_normalizes_validator_lists [OF built] built show ?thesis
    by blast
qed

section \<open>View-to-model updates, teardown and the disabled state\<close>

text \<open>
  C6. \<open>viewToModelUpdate(newValue)\<close> writes \<open>newValue\<close> to \<open>viewModel\<close> and then emits:
  the one event added to the trace carries \<open>newValue\<close> and was emitted when \<open>viewModel\<close>
  already held \<open>newValue\<close>; afterwards \<open>viewModel\<close> is \<open>newValue\<close>, nothing else in the
  directive has changed, and the call raises only what the emit raises.
\<close>

theorem viewToModelUpdate_caches_then_emits:
  "snd (viewToModelUpdate E newValue (d, w))
     = (d\<lparr>viewModel := newValue\<rparr>, w\<lparr>trace := trace w @ [Emit newValue newValue]\<rparr>)
   \<and> viewModel (fst (snd (viewToModelUpdate E newValue (d, w)))) = newValue
   \<and> trace (snd (snd (viewToModelUpdate E newValue (d, w))))
       = trace w @ [Emit newValue newValue]
   \<and> fst (viewToModelUpdate E newValue (d, w))
       = raises E w (d\<lparr>viewModel := newValue\<rparr>) (Emit newValue newValue)"
  by (simp add: viewToModelUpdate_def Let_def record_call_def)

theorem viewToModelUpdate_caches_then_emits_witness:
  "viewToModelUpdate scenario_env (JStr ''42'') scenario_registered
     = (None, ((fst scenario_registered)\<lparr>viewModel := JStr ''42''\<rparr>,
               (snd scenario_registered)
                 \<lparr>trace := [AddControl 0, SetDisabledState True,
                            Emit (JStr ''42'') (JStr ''42'')]\<rparr>))"
proof -
  have quiet: "raises scenario_env (snd scenario_registered)
      ((fst scenario_registered)\<lparr>viewModel := JStr ''42''\<rparr>)
      (Emit (JStr ''42'') (JStr ''42'')) = None"
    by (simp add: scenario_env_def)
  have so_far: "trace (snd scenario_registered) = [AddControl 0, SetDisabledState True]"
    by (simp add: scenario_registered_def)
  from viewToModelUpdate_caches_then_emits
    [where E = scenario_env and newValue = "JStr ''42''" and d = "fst scenario_registered"
       and w = "snd scenario_registered"] quiet so_far
  show ?thesis
    by (simp add: prod_eq_iff)
qed

text \<open>
  C7. The form directive \<open>ngOnDestroy\<close> addresses is the one the parent container's
  \<open>formDirective\<close> getter returns at that moment. When the directive has a parent and
  that getter returns a form directive, \<open>ngOnDestroy\<close> calls \<open>removeControl\<close> on it
  exactly once and does nothing else; when the getter returns \<open>null\<close>, and when the
  directive has no parent container, it does nothing at all and raises nothing.
\<close>

theorem ngOnDestroy_removes_once:
  "(formDirective w d = Some fd
      \<longrightarrow> snd (ngOnDestroy E (d, w)) = (d, w\<lparr>trace := trace w @ [RemoveControl fd]\<rparr>)
        \<and> fst (ngOnDestroy E (d, w)) = raises E w d (RemoveControl fd))
   \<and> (formDirective w d = None \<longrightarrow> ngOnDestroy E (d, w) = (None, (d, w)))
   \<and> (parent d = None \<longrightarrow> formDirective w d = None \<and> ngOnDestroy E (d, w) = (None, (d, w)))
   \<and> (parent d = Some p \<longrightarrow> formDirective w d = container_formDirective (containers w p))
   \<and> (parent d = Some p \<and> container_formDirective (containers w p) = Some fd
      \<longrightarrow> formDirective w d = Some fd
        \<and> snd (ngOnDestroy E (d, w)) = (d, w\<lparr>trace := trace w @ [RemoveControl fd]\<rparr>)
        \<and> fst (ngOnDestroy E (d, w)) = raises E w d (RemoveControl fd))
   \<and> (parent d = Some p \<and> container_formDirective (containers w p) = None
      \<longrightarrow> formDirective w d = None \<and> ngOnDestroy E (d, w) = (None, (d, w)))"
proof -
  have getter: "formDirective w d = container_formDirective (containers w p)"
    if "parent d = Some p"
    using that by (simp add: formDirective_def)
  have unattached: "formDirective w d = None" if "parent d = None"
    using that by (simp add: formDirective_def)
  have removed: "snd (ngOnDestroy E (d, w)) = (d, w\<lparr>trace := trace w @ [RemoveControl x]\<rparr>)
      \<and> fst (ngOnDestroy E (d, w)) = raises E w d (RemoveControl x)"
    if "formDirective w d = Some x" for x
    using that by (simp add: ngOnDestroy_def record_call_def)
  have no_call: "ngOnDestroy E (d, w) = (None, (d, w))" if "formDirective w d = None"
    using that by (simp add: ngOnDestroy_def)
  have found: "formDirective w d = Some fd
      \<and> snd (ngOnDestroy E (d, w)) = (d, w\<lparr>trace := trace w @ [RemoveControl fd]\<rparr>)
      \<and> fst (ngOnDestroy E (d, w)) = raises E w d (RemoveControl fd)"
    if "parent d = Some p" and "container_formDirective (containers w p) = Some fd"
  proof -
    from getter [OF that(1)] that(2) have some: "formDirective w d = Some fd" by simp
    from some removed [OF some] show ?thesis by blast
  qed
  have absent: "formDirective w d = None \<and> ngOnDestroy E (d, w) = (None, (d, w))"
    if "parent d = Some p" and "container_formDirective (containers w p) = None"
  proof -
    from getter [OF that(1)] that(2) have none: "formDirective w d = None" by simp
    from none no_call [OF none] show ?thesis by blast
  qed
  from getter unattached removed [of fd] no_call found absent show ?thesis
    by blast
qed

theorem ngOnDestroy_removes_once_witness:
  "formDirective (snd scenario_registered) (fst scenario_registered) = Some 0
   \<and> parent (fst scenario_registered) = Some 1
   \<and> container_formDirective (containers (snd scenario_registered) 1) = Some 0
   \<and> snd (ngOnDestroy scenario_env scenario_registered)
       = (fst scenario_registered,
          (snd scenario_registered)
            \<lparr>trace := [AddControl 0, SetDisabledState True, RemoveControl 0]\<rparr>)
   \<and> parent (scenario_directive (Some 2)) = Some 2
   \<and> container_formDirective (containers scenario_world 2) = None
   \<and> ngOnDestroy scenario_env (scenario_directive (Some 2), scenario_world)
       = (None, (scenario_directive (Some 2), scenario_world))
   \<and> parent (scenario_directive None) = None
   \<and> ngOnDestroy scenario_env (scenario_directive None, scenario_world)
       = (None, (scenario_directive None, scenario_world))"
proof -
  have nested: "parent (fst scenario_registered) = Some 1"
    by (simp add: scenario_defs)
  have root: "container_formDirective (containers (snd scenario_registered) 1) = Some 0"
    by (simp add: scenario_defs)
  have so_far: "trace (snd scenario_registered) = [AddControl 0, SetDisabledState True]"
    by (simp add: scenario_registered_def)
  have detached: "parent (scenario_directive (Some 2)) = Some 2"
    by (simp add: scenario_directive_def)
  have no_root: "container_formDirective (containers scenario_world 2) = None"
    by (simp add: scenario_defs)
  have unattached: "parent (scenario_directive None) = None"
    by (simp add: scenario_directive_def)
  from ngOnDestroy_removes_once
    [where w = "snd scenario_registered" and d = "fst scenario_registered" and fd = 0
       and p = 1 and E = scenario_env] nested root
  have reachable: "formDirective (snd scenario_registered) (fst scenario_registered) = Some 0"
    and "snd (ngOnDestroy scenario_env (fst scenario_registered, snd scenario_registered))
      = (fst scenario_registered,
         (snd scenario_registered)
           \<lparr>trace := trace (snd scenario_registered) @ [RemoveControl 0]\<rparr>)"
    by blast+
  with so_far have removed: "snd (ngOnDestroy scenario_env scenario_registered)
       = (fst scenario_registered,
          (snd scenario_registered)
            \<lparr>trace := [AddControl 0, SetDisabledState True, RemoveControl 0]\<rparr>)"
    by simp
  from ngOnDestroy_removes_once
    [where w = scenario_world and d = "scenario_directive (Some 2)" and p = 2
       and E = scenario_env] detached no_root
  have skipped: "ngOnDestroy scenario_env (scenario_directive (Some 2), scenario_world)
       = (None, (scenario_directive (Some 2), scenario_world))"
    by blast
  from ngOnDestroy_removes_once
    [where w = scenario_world and d = "scenario_directive None" and E = scenario_env]
    unattached
  have "ngOnDestroy scenario_env (scenario_directive None, scenario_world)
       = (None, (scenario_directive None, scenario_world))"
    by blast
  with reachable nested root removed detached no_root skipped unattached show ?thesis
    by blast
qed

text \<open>
  C9. When the setup has located a control (the parent check passed, a form directive is
  reachable and \<open>addControl\<close> returned the control): if the control is disabled and the
  value accessor has \<open>setDisabledState\<close>, the setup calls \<open>setDisabledState(true)\<close> once,
  right after the registration; if the control is not disabled it makes no such call and
  completes. In every case the setup applies the disabled state only for a located,
  disabled control and an accessor that has the method.
\<close>

theorem setUpControl_applies_disabled_state:
  "(checkParentType w d = None \<and> formDirective w d = Some fd
      \<and> addControl_returns E w d = Inr (Some ctl)
      \<longrightarrow> control (fst (snd (setUpControl E (d, w)))) = Some ctl
        \<and> (disabled ctl \<and> valueAccessor d = Some va \<and> has_setDisabledState va
            \<longrightarrow> trace (snd (snd (setUpControl E (d, w))))
                  = trace w @ [AddControl fd, SetDisabledState True])
        \<and> (\<not> disabled ctl
            \<longrightarrow> setUpControl E (d, w)
                  = (None, (d\<lparr>control := Some ctl, added := True\<rparr>,
                            w\<lparr>trace := trace w @ [AddControl fd]\<rparr>))))
   \<and> (disabled_applications (snd (snd (setUpControl E (d, w)))) \<noteq> disabled_applications w
      \<longrightarrow> (\<exists>c a. addControl_returns E w d = Inr (Some c) \<and> disabled c
                 \<and> valueAccessor d = Some a \<and> has_setDisabledState a))"
proof -
  have located: "control (fst (snd (setUpControl E (d, w)))) = Some ctl"
    if "checkParentType w d = None" and "formDirective w d = Some fd"
      and "addControl_returns E w d = Inr (Some ctl)"
    using that
    by (simp add: setUpControl_def Let_def split: option.splits)
  have applied: "trace (snd (snd (setUpControl E (d, w))))
      = trace w @ [AddControl fd, SetDisabledState True]"
    if "checkParentType w d = None" and "formDirective w d = Some fd"
      and "addControl_returns E w d = Inr (Some ctl)"
      and "disabled ctl" and "valueAccessor d = Some va" and "has_setDisabledState va"
    using that
    by (simp add: setUpControl_def Let_def record_call_def split: option.splits)
  have enabled: "setUpControl E (d, w)
      = (None, (d\<lparr>control := Some ctl, added := True\<rparr>,
                w\<lparr>trace := trace w @ [AddControl fd]\<rparr>))"
    if "checkParentType w d = None" and "formDirective w d = Some fd"
      and "addControl_returns E w d = Inr (Some ctl)" and "\<not> disabled ctl"
    using that
    by (simp add: setUpControl_def Let_def record_call_def)
  have only_then: "\<exists>c a. addControl_returns E w d = Inr (Some c) \<and> disabled c
                 \<and> valueAccessor d = Some a \<and> has_setDisabledState a"
    if "disabled_applications (snd (snd (setUpControl E (d, w)))) \<noteq> disabled_applications w"
    using that
    by (auto simp add: setUpControl_def Let_def count_simps
        split: option.splits sum.splits if_splits)
  from located applied enabled only_then show ?thesis
    by blast
qed

theorem setUpControl_applies_disabled_state_witness:
  "checkParentType scenario_world (scenario_directive (Some 1)) = None
   \<and> formDirective scenario_world (scenario_directive (Some 1)) = Some 0
   \<and> addControl_returns scenario_env scenario_world (scenario_directive (Some 1))
       = Inr (Some scenario_control)
   \<and> disabled scenario_control
   \<and> has_setDisabledState scenario_accessor
   \<and> trace (snd (snd (setUpControl scenario_env
                         (scenario_directive (Some 1), scenario_world))))
       = trace scenario_world @ [AddControl 0, SetDisabledState True]
   \<and> \<not> disabled (scenario_control\<lparr>disabled := False\<rparr>)
   \<and> trace (snd (snd (setUpControl
         (scenario_env\<lparr>addControl_returns :=
            (\<lambda>w d. Inr (Some (scenario_control\<lparr>disabled := False\<rparr>)))\<rparr>)
         (scenario_directive (Some 1), scenario_world))))
       = trace scenario_world @ [AddControl 0]"
proof -
  have checked: "checkParentType scenario_world (scenario_directive (Some 1)) = None"
    by (simp add: method_defs scenario_defs)
  have reachable: "formDirective scenario_world (scenario_directive (Some 1)) = Some 0"
    by (simp add: formDirective_def scenario_defs)
  have found: "addControl_returns scenario_env scenario_world (scenario_directive (Some 1))
       = Inr (Some scenario_control)"
    by (simp add: scenario_env_def)
  have is_disabled: "disabled scenario_control"
    by (simp add: scenario_control_def)
  have accessor: "valueAccessor (scenario_directive (Some 1)) = Some scenario_accessor"
    by (simp add: scenario_directive_def)
  have supported: "has_setDisabledState scenario_accessor"
    by (simp add: scenario_accessor_def)
  from setUpControl_applies_disabled_state
    [where w = scenario_world and d = "scenario_directive (Some 1)" and fd = 0
       and E = scenario_env and ctl = scenario_control and va = scenario_accessor]
    checked reachable found is_disabled accessor supported
  have on: "trace (snd (snd (setUpControl scenario_env
                         (scenario_directive (Some 1), scenario_world))))
       = trace scenario_world @ [AddControl 0, SetDisabledState True]"
    by blast
  have found': "addControl_returns
        (scenario_env\<lparr>addControl_returns :=
            (\<lambda>w d. Inr (Some (scenario_control\<lparr>disabled := False\<rparr>)))\<rparr>)
        scenario_world (scenario_directive (Some 1))
       = Inr (Some (scenario_control\<lparr>disabled := False\<rparr>))"
    by simp
  have is_enabled: "\<not> disabled (scenario_control\<lparr>disabled := False\<rparr>)"
    by simp
  from setUpControl_applies_disabled_state
    [where w = scenario_world and d = "scenario_directive (Some 1)" and fd = 0
       and E = "scenario_env\<lparr>addControl_returns :=
            (\<lambda>w d. Inr (Some (scenario_control\<lparr>disabled := False\<rparr>)))\<rparr>"
       and ctl = "scenario_control\<lparr>disabled := False\<rparr>"]
    checked reachable found' is_enabled
  have "setUpControl
         (scenario_env\<lparr>addControl_returns :=
            (\<lambda>w d. Inr (Some (scenario_control\<lparr>disabled := False\<rparr>)))\<rparr>)
         (scenario_directive (Some 1), scenario_world)
       = (None, ((scenario_directive (Some 1))
                   \<lparr>control := Some (scenario_control\<lparr>disabled := False\<rparr>), added := True\<rparr>,
                 scenario_world\<lparr>trace := trace scenario_world @ [AddControl 0]\<rparr>))"
    by blast
  then have off: "trace (snd (snd (setUpControl
         (scenario_env\<lparr>addControl_returns :=
            (\<lambda>w d. Inr (Some (scenario_control\<lparr>disabled := False\<rparr>)))\<rparr>)
         (scenario_directive (Some 1), scenario_world))))
       = trace scenario_world @ [AddControl 0]"
    by simp
  from checked reachable found is_disabled supported on is_enabled off show ?thesis
    by blast
qed

end
